theory Spec2Isabelle
  imports Main "HOL-Library.Stream" "HOL-Library.Word" "HOL-Library.Multiset"
begin

section \<open>The key service of \<^verbatim>\<open>src/index.js\<close>\<close>

text \<open>
  The program is a Discord bot with an HTTP API on top of two PostgreSQL tables,
  \<^verbatim>\<open>keys\<close> and \<^verbatim>\<open>logs\<close>. Each handler is embedded as a function from the database
  (and what the environment supplies: the clock, the random bytes, whether a statement
  throws) to the handler's answer and the new database.

  Conventions of the embedding:
  \<^item> a timestamp is an \<open>int\<close> (milliseconds since the epoch, as \<^verbatim>\<open>Date.now()\<close>);
    the statements of one handler invocation run at one instant \<open>now\<close>, on which the
    JavaScript clock and \<^verbatim>\<open>NOW()\<close> of PostgreSQL agree. The step functions of the
    verify handler take the clock at every step;
  \<^item> a table is the list of its rows in insertion order; the \<^verbatim>\<open>SERIAL\<close> column
    \<^verbatim>\<open>id\<close>, which no handler reads, is left out;
  \<^item> a nullable column is an \<open>option\<close>;
  \<^item> a statement that throws (connection loss, timeout) is a \<open>fault\<close> given by the
    environment: \<open>Some msg\<close> makes the statement throw an error with that message and
    leaves the tables as they are;
  \<^item> a string of the request body is a \<open>string\<close>, the empty string standing for an
    absent or empty field (both are falsy in JavaScript).
\<close>

subsection \<open>Tables\<close>

record key_row =
  key :: string
  creator_id :: string
  creator_name :: string
  creator_username :: string
  created_at :: int
  expires_at :: int
  duration :: string
  used :: bool
  user_roblox_name :: "string option"
  user_roblox_id :: "string option"
  used_at :: "int option"
  key_notes :: "string option"

record log_row =
  log_action :: string
  log_key :: "string option"
  log_creator_id :: "string option"
  log_creator_name :: "string option"
  log_user_roblox_name :: "string option"
  log_timestamp :: int
  log_details :: "string option"

record db =
  keys :: "key_row list"
  logs :: "log_row list"

definition empty_db :: db where
  "empty_db = \<lparr>keys = [], logs = []\<rparr>"

subsection \<open>Statements\<close>

type_synonym fault = "string option"

datatype db_error = UniqueViolation | StorageFault string

text \<open>\<^verbatim>\<open>SELECT * FROM keys WHERE key = $1\<close> through \<^verbatim>\<open>dbGet\<close>: the first row, or
  \<^verbatim>\<open>undefined\<close>.\<close>

definition sql_select_key :: "fault \<Rightarrow> string \<Rightarrow> db \<Rightarrow> db_error + key_row option" where
  "sql_select_key f k d =
     (case f of
        Some msg \<Rightarrow> Inl (StorageFault msg)
      | None \<Rightarrow> Inr (find (\<lambda>r. key r = k) (keys d)))"

text \<open>\<^verbatim>\<open>INSERT INTO keys (key, creator_id, creator_name, creator_username, expires_at,
  duration, notes)\<close>: \<^verbatim>\<open>created_at\<close> and \<^verbatim>\<open>used\<close> take their defaults, the three
  redeemer columns are NULL, and the column \<^verbatim>\<open>key\<close> is \<^verbatim>\<open>UNIQUE\<close>.\<close>

definition sql_insert_key ::
  "fault \<Rightarrow> int \<Rightarrow> string \<Rightarrow> string \<Rightarrow> string \<Rightarrow> string \<Rightarrow> int \<Rightarrow> string \<Rightarrow> string \<Rightarrow> db
     \<Rightarrow> db_error + db" where
  "sql_insert_key f now k cid cname cuser expiresAt durationText nts d =
     (case f of
        Some msg \<Rightarrow> Inl (StorageFault msg)
      | None \<Rightarrow>
          if list_ex (\<lambda>r. key r = k) (keys d) then Inl UniqueViolation
          else Inr (d\<lparr>keys := keys d @
                 [\<lparr>key = k, creator_id = cid, creator_name = cname, creator_username = cuser,
                   created_at = now, expires_at = expiresAt, duration = durationText,
                   used = False, user_roblox_name = None, user_roblox_id = None,
                   used_at = None, key_notes = Some nts\<rparr>]\<rparr>))"

text \<open>\<^verbatim>\<open>UPDATE keys SET used = true, user_roblox_name = $1, user_roblox_id = $2,
  used_at = NOW() WHERE key = $3\<close>.\<close>

definition sql_update_used :: "fault \<Rightarrow> int \<Rightarrow> string \<Rightarrow> string \<Rightarrow> string \<Rightarrow> db \<Rightarrow> db_error + db" where
  "sql_update_used f now rname rid k d =
     (case f of
        Some msg \<Rightarrow> Inl (StorageFault msg)
      | None \<Rightarrow>
          Inr (d\<lparr>keys := map (\<lambda>r. if key r = k
                                   then r\<lparr>used := True, user_roblox_name := Some rname,
                                          user_roblox_id := Some rid, used_at := Some now\<rparr>
                                   else r) (keys d)\<rparr>))"

text \<open>\<^verbatim>\<open>DELETE FROM keys WHERE key = $1\<close>.\<close>

definition sql_delete_key :: "fault \<Rightarrow> string \<Rightarrow> db \<Rightarrow> db_error + db" where
  "sql_delete_key f k d =
     (case f of
        Some msg \<Rightarrow> Inl (StorageFault msg)
      | None \<Rightarrow> Inr (d\<lparr>keys := filter (\<lambda>r. key r \<noteq> k) (keys d)\<rparr>))"

text \<open>\<^verbatim>\<open>DELETE FROM keys WHERE expires_at < NOW() AND used = false RETURNING key\<close>:
  the identifiers of the deleted rows and the new table.\<close>

definition sql_delete_expired :: "fault \<Rightarrow> int \<Rightarrow> db \<Rightarrow> db_error + (string list \<times> db)" where
  "sql_delete_expired f now d =
     (case f of
        Some msg \<Rightarrow> Inl (StorageFault msg)
      | None \<Rightarrow>
          Inr (map key (filter (\<lambda>r. expires_at r < now \<and> used r = False) (keys d)),
               d\<lparr>keys := filter (\<lambda>r. \<not> (expires_at r < now \<and> used r = False)) (keys d)\<rparr>))"


text \<open>\<^verbatim>\<open>addLog\<close>: one \<^verbatim>\<open>INSERT INTO logs\<close>; \<^verbatim>\<open>timestamp\<close> takes its default.\<close>

definition addLog ::
  "fault \<Rightarrow> int \<Rightarrow> string \<Rightarrow> string \<Rightarrow> string \<Rightarrow> string \<Rightarrow> string option \<Rightarrow> string option \<Rightarrow> db
     \<Rightarrow> db_error + db" where
  "addLog f now action k creatorId creatorName userRoblox details d =
     (case f of
        Some msg \<Rightarrow> Inl (StorageFault msg)
      | None \<Rightarrow>
          Inr (d\<lparr>logs := logs d @
                 [\<lparr>log_action = action, log_key = Some k, log_creator_id = Some creatorId,
                   log_creator_name = Some creatorName, log_user_roblox_name = userRoblox,
                   log_timestamp = now, log_details = details\<rparr>]\<rparr>))"

subsection \<open>The expiry sweep\<close>

datatype sweep_output = Removed nat | Quiet | SweepFailed db_error

text \<open>\<^verbatim>\<open>cleanupExpiredKeys\<close>: what it writes to the console, and the new database.\<close>

definition cleanupExpiredKeys :: "fault \<Rightarrow> int \<Rightarrow> db \<Rightarrow> sweep_output \<times> db" where
  "cleanupExpiredKeys f now d =
     (case sql_delete_expired f now d of
        Inl e \<Rightarrow> (SweepFailed e, d)
      | Inr (rows, d') \<Rightarrow> (if length rows > 0 then Removed (length rows) else Quiet, d'))"

subsection \<open>\<^verbatim>\<open>POST /api/verify\<close>\<close>

record verify_req =
  req_key :: string
  robloxName :: string
  robloxId :: string

text \<open>The JSON answers of the handler. \<open>Granted\<close> is \<^verbatim>\<open>valid: true\<close> with
  \<^verbatim>\<open>createdBy\<close>, \<^verbatim>\<open>duration\<close> and \<^verbatim>\<open>createdAt\<close>; every other answer has
  \<^verbatim>\<open>valid: false\<close> and a message: key not given, Roblox data not given, key not found,
  key already used, key expired, or the message of the error that was caught.\<close>

datatype verify_response =
    KeyNotProvided
  | RobloxDataMissing
  | KeyNotFound
  | KeyAlreadyUsed
  | KeyExpired
  | Granted string string int
  | Failed db_error

fun valid :: "verify_response \<Rightarrow> bool" where
  "valid (Granted _ _ _) = True"
| "valid _ = False"

definition verify_details :: "string \<Rightarrow> string \<Rightarrow> string" where
  "verify_details rname rid = ''Usado por '' @ rname @ '' (ID: '' @ rid @ '')''"

definition verify ::
  "fault \<Rightarrow> fault \<Rightarrow> fault \<Rightarrow> int \<Rightarrow> verify_req \<Rightarrow> db \<Rightarrow> verify_response \<times> db" where
  "verify f_select f_update f_log now req d =
     (if req_key req = [] then (KeyNotProvided, d)
      else if robloxName req = [] \<or> robloxId req = [] then (RobloxDataMissing, d)
      else
        (case sql_select_key f_select (req_key req) d of
           Inl e \<Rightarrow> (Failed e, d)
         | Inr None \<Rightarrow> (KeyNotFound, d)
         | Inr (Some keyData) \<Rightarrow>
             if used keyData then (KeyAlreadyUsed, d)
             else if expires_at keyData < now then (KeyExpired, d)
             else
               (case sql_update_used f_update now (robloxName req) (robloxId req)
                       (req_key req) d of
                  Inl e \<Rightarrow> (Failed e, d)
                | Inr d1 \<Rightarrow>
                    (case addLog f_log now ''VERIFY'' (req_key req) (creator_id keyData)
                            (creator_name keyData) (Some (robloxName req))
                            (Some (verify_details (robloxName req) (robloxId req))) d1 of
                       Inl e \<Rightarrow> (Failed e, d1)
                     | Inr d2 \<Rightarrow>
                         (Granted (creator_name keyData) (duration keyData)
                            (created_at keyData), d2)))))"

text \<open>
  The handler is an \<^verbatim>\<open>async\<close> function: it gives up control at each \<^verbatim>\<open>await\<close>, and
  the statements of other requests may run in between. \<open>verify_step\<close> is one such
  piece: one statement, run by the database as a whole, and the JavaScript that follows
  it up to the next \<^verbatim>\<open>await\<close>. \<open>Fetched\<close> holds the row that the \<^verbatim>\<open>SELECT\<close>
  returned (\<^verbatim>\<open>keyData\<close>); the handler does not read the table again.
\<close>

datatype verify_proc =
    Start verify_req
  | Fetched verify_req key_row
  | Updated verify_req key_row
  | Done verify_response

fun verify_step :: "fault \<Rightarrow> int \<Rightarrow> verify_proc \<Rightarrow> db \<Rightarrow> verify_proc \<times> db" where
  "verify_step f now (Start req) d =
     (if req_key req = [] then (Done KeyNotProvided, d)
      else if robloxName req = [] \<or> robloxId req = [] then (Done RobloxDataMissing, d)
      else
        (case sql_select_key f (req_key req) d of
           Inl e \<Rightarrow> (Done (Failed e), d)
         | Inr None \<Rightarrow> (Done KeyNotFound, d)
         | Inr (Some keyData) \<Rightarrow>
             if used keyData then (Done KeyAlreadyUsed, d)
             else if expires_at keyData < now then (Done KeyExpired, d)
             else (Fetched req keyData, d)))"
| "verify_step f now (Fetched req keyData) d =
     (case sql_update_used f now (robloxName req) (robloxId req) (req_key req) d of
        Inl e \<Rightarrow> (Done (Failed e), d)
      | Inr d1 \<Rightarrow> (Updated req keyData, d1))"
| "verify_step f now (Updated req keyData) d =
     (case addLog f now ''VERIFY'' (req_key req) (creator_id keyData) (creator_name keyData)
             (Some (robloxName req))
             (Some (verify_details (robloxName req) (robloxId req))) d of
        Inl e \<Rightarrow> (Done (Failed e), d)
      | Inr d2 \<Rightarrow>
          (Done (Granted (creator_name keyData) (duration keyData) (created_at keyData)), d2))"
| "verify_step f now (Done r) d = (Done r, d)"

text \<open>Several requests in flight: an event resumes the handler at position \<open>i\<close>, with
  the fault of its pending statement and the clock.\<close>

type_synonym event = "nat \<times> fault \<times> int"

fun run_events :: "event list \<Rightarrow> verify_proc list \<times> db \<Rightarrow> verify_proc list \<times> db" where
  "run_events [] s = s"
| "run_events ((i, f, now) # es) (ps, d) =
     (if i < length ps
      then (case verify_step f now (ps ! i) d of (p', d') \<Rightarrow> run_events es (ps[i := p'], d'))
      else run_events es (ps, d))"

subsection \<open>The slash commands\<close>

record discord_user =
  user_id :: string
  globalName :: "string option"
  username :: string

text \<open>\<^verbatim>\<open>user.globalName || user.username\<close>.\<close>

definition display_name :: "discord_user \<Rightarrow> string" where
  "display_name u =
     (case globalName u of
        None \<Rightarrow> username u
      | Some n \<Rightarrow> if n = [] then username u else n)"

text \<open>The option \<^verbatim>\<open>duracao\<close> of \<^verbatim>\<open>/getkey\<close> is required and registered with five
  choices, so Discord delivers one of these values.\<close>

datatype duration_choice = D1h | D24h | D7d | D30d | Dperm

fun durationMs :: "duration_choice \<Rightarrow> int" where
  "durationMs D1h = 60 * 60 * 1000"
| "durationMs D24h = 24 * 60 * 60 * 1000"
| "durationMs D7d = 7 * 24 * 60 * 60 * 1000"
| "durationMs D30d = 30 * 24 * 60 * 60 * 1000"
| "durationMs Dperm = 365 * 24 * 60 * 60 * 1000"

fun durationText :: "duration_choice \<Rightarrow> string" where
  "durationText D1h = ''1 Hora''"
| "durationText D24h = ''24 Horas''"
| "durationText D7d = ''7 Dias''"
| "durationText D30d = ''30 Dias''"
| "durationText Dperm = ''Permanente (1 Ano)''"

text \<open>\<^verbatim>\<open>generateKey\<close>: \<^verbatim>\<open>crypto.randomBytes(8).toString('hex').toUpperCase()\<close>. The
  random source is the stream of the bytes it will deliver; a call takes eight.\<close>

definition hex_digit :: "nat \<Rightarrow> char" where
  "hex_digit n = ''0123456789ABCDEF'' ! (n mod 16)"

definition hex_byte :: "8 word \<Rightarrow> string" where
  "hex_byte b = [hex_digit (unat b div 16), hex_digit (unat b mod 16)]"

definition generateKey :: "8 word stream \<Rightarrow> string \<times> 8 word stream" where
  "generateKey rng = (concat (map hex_byte (stake 8 rng)), sdrop 8 rng)"

record key_embed =
  embed_key :: string
  embed_duration :: string
  embed_expires :: int
  embed_user_id :: string
  embed_notes :: "string option"

datatype delivery = DirectMessage | InReply

datatype key_status = StatusUsed | StatusExpired | StatusValid

record status_view =
  view_row :: key_row
  view_status :: key_status
  view_isValid :: bool

datatype reply =
    KeyIssued key_embed delivery
  | NoActiveKeys
  | ActiveKeys "(key_row \<times> key_status) list"
  | KeyNotFoundReply
  | NotYourKey
  | KeyRevoked string
  | KeyStatus status_view
  | CommandError

definition create_details :: "string \<Rightarrow> string \<Rightarrow> string" where
  "create_details dtext nts =
     ''Key gerada: '' @ dtext @ ''. Notas: '' @ (if nts = [] then ''Nenhuma'' else nts)"

text \<open>\<^verbatim>\<open>/getkey\<close>. \<open>notas\<close> is the optional option (\<^verbatim>\<open>null\<close> when not given);
  \<open>dm_ok\<close> says whether the direct message to the user goes through.\<close>

definition getkey ::
  "8 word stream \<Rightarrow> fault \<Rightarrow> fault \<Rightarrow> bool \<Rightarrow> int \<Rightarrow> discord_user \<Rightarrow> duration_choice
     \<Rightarrow> string option \<Rightarrow> db \<Rightarrow> reply \<times> 8 word stream \<times> db" where
  "getkey rng f_insert f_log dm_ok now u duracao notas d =
     (let nts = (case notas of None \<Rightarrow> [] | Some n \<Rightarrow> n);
          (k, rng') = generateKey rng;
          expiresAt = now + durationMs duracao
      in
        (case sql_insert_key f_insert now k (user_id u) (display_name u) (username u)
                expiresAt (durationText duracao) nts d of
           Inl e \<Rightarrow> (CommandError, rng', d)
         | Inr d1 \<Rightarrow>
             (case addLog f_log now ''CREATE'' k (user_id u) (display_name u) None
                     (Some (create_details (durationText duracao) nts)) d1 of
                Inl e \<Rightarrow> (CommandError, rng', d1)
              | Inr d2 \<Rightarrow>
                  (KeyIssued
                     \<lparr>embed_key = k, embed_duration = durationText duracao,
                      embed_expires = expiresAt div 1000, embed_user_id = user_id u,
                      embed_notes = (if nts = [] then None else Some nts)\<rparr>
                     (if dm_ok then DirectMessage else InReply),
                   rng', d2))))"















text \<open>\<^verbatim>\<open>/revokekey\<close>.\<close>

definition revokekey ::
  "fault \<Rightarrow> fault \<Rightarrow> fault \<Rightarrow> int \<Rightarrow> discord_user \<Rightarrow> string \<Rightarrow> db \<Rightarrow> reply \<times> db" where
  "revokekey f_select f_delete f_log now u k d =
     (case sql_select_key f_select k d of
        Inl e \<Rightarrow> (CommandError, d)
      | Inr None \<Rightarrow> (KeyNotFoundReply, d)
      | Inr (Some keyData) \<Rightarrow>
          if creator_id keyData \<noteq> user_id u then (NotYourKey, d)
          else
            (case sql_delete_key f_delete k d of
               Inl e \<Rightarrow> (CommandError, d)
             | Inr d1 \<Rightarrow>
                 (case addLog f_log now ''REVOKE'' k (user_id u) (display_name u) None
                         (Some ''Key revogada'') d1 of
                    Inl e \<Rightarrow> (CommandError, d1)
                  | Inr d2 \<Rightarrow> (KeyRevoked k, d2))))"


text \<open>The invariant of the schema: \<^verbatim>\<open>used_at\<close> is set exactly on the used rows.\<close>

definition used_at_iff_used :: "db \<Rightarrow> bool" where
  "used_at_iff_used d = list_all (\<lambda>r. (used_at r \<noteq> None) = used r) (keys d)"


subsection \<open>Sample data\<close>

definition ana :: discord_user where
  "ana = \<lparr>user_id = ''111'', globalName = Some ''Ana'', username = ''ana01''\<rparr>"

text \<open>A row as \<^verbatim>\<open>/getkey\<close> leaves it for \<open>ana\<close>: created at \<open>t\<close>, expiring \<open>ms\<close> later.\<close>

definition issued :: "string \<Rightarrow> int \<Rightarrow> int \<Rightarrow> key_row" where
  "issued k t ms =
     \<lparr>key = k, creator_id = ''111'', creator_name = ''Ana'', creator_username = ''ana01'',
      created_at = t, expires_at = t + ms, duration = ''1 Hora'', used = False,
      user_roblox_name = None, user_roblox_id = None, used_at = None, key_notes = Some []\<rparr>"

text \<open>The same row after \<open>bob\<close> has redeemed it at \<open>t\<close>.\<close>

definition redeemed :: "key_row \<Rightarrow> int \<Rightarrow> key_row" where
  "redeemed r t =
     r\<lparr>used := True, user_roblox_name := Some ''bob'', user_roblox_id := Some ''42'',
       used_at := Some t\<rparr>"

definition bob :: "string \<Rightarrow> verify_req" where
  "bob k = \<lparr>req_key = k, robloxName = ''bob'', robloxId = ''42''\<rparr>"

definition eve :: "string \<Rightarrow> verify_req" where
  "eve k = \<lparr>req_key = k, robloxName = ''eve'', robloxId = ''43''\<rparr>"

definition table :: "key_row list \<Rightarrow> db" where
  "table rows = \<lparr>keys = rows, logs = []\<rparr>"


text \<open>A random source whose first identifier is \<^verbatim>\<open>ABABABABABABABAB\<close> and whose later
  ones are \<^verbatim>\<open>CDCDCDCDCDCDCDCD\<close>.\<close>

definition ab_then_cd :: "8 word stream" where
  "ab_then_cd = [0xAB, 0xAB, 0xAB, 0xAB, 0xAB, 0xAB, 0xAB, 0xAB] @- sconst 0xCD"

section \<open>Properties\<close>

subsection \<open>Lookups after each statement\<close>

lemma find_update_used:
  "find (\<lambda>r. key r = k) rows = Some r \<Longrightarrow>
   find (\<lambda>r. key r = k)
     (map (\<lambda>r. if key r = k
               then r\<lparr>used := True, user_roblox_name := Some n, user_roblox_id := Some i,
                      used_at := Some t\<rparr>
               else r) rows)
   = Some (r\<lparr>used := True, user_roblox_name := Some n, user_roblox_id := Some i,
             used_at := Some t\<rparr>)"
  by (induction rows) (auto split: if_splits)

lemma find_append_new:
  "\<not> list_ex (\<lambda>r. key r = k) rows \<Longrightarrow> key x = k \<Longrightarrow>
   find (\<lambda>r. key r = k) (rows @ [x]) = Some x"
  by (induction rows) auto

lemma find_filter_neq: "find (\<lambda>r. key r = k) (filter (\<lambda>r. key r \<noteq> k) rows) = None"
  by (induction rows) auto

subsection \<open>Verification\<close>



text \<open>
  C4, as the code has it. A single call of \<^verbatim>\<open>/api/verify\<close> that carries a key and the
  Roblox name and id, with no storage fault: the answer is \<^verbatim>\<open>valid: true\<close>, with the
  creator's name, the duration and the creation time of the row, if and only if the key
  exists, \<^verbatim>\<open>used\<close> is false and \<open>now \<le> expires_at\<close> (the handler rejects
  \<open>expires_at < now\<close>, so a call at the exact instant of expiry is granted). Otherwise
  the answer is the reason (not found, already used, expired, in this order) and the
  database is unchanged.
\<close>

theorem verify_single_call:
  assumes "req_key req \<noteq> []" and "robloxName req \<noteq> []" and "robloxId req \<noteq> []"
  shows "(valid (fst (verify None None None now req d)) \<longleftrightarrow>
            (\<exists>r. find (\<lambda>r. key r = req_key req) (keys d) = Some r \<and> \<not> used r
                 \<and> now \<le> expires_at r))
       \<and> (\<forall>r. find (\<lambda>r. key r = req_key req) (keys d) = Some r \<and> \<not> used r
               \<and> now \<le> expires_at r
             \<longrightarrow> fst (verify None None None now req d)
                   = Granted (creator_name r) (duration r) (created_at r))
       \<and> (find (\<lambda>r. key r = req_key req) (keys d) = None
             \<longrightarrow> verify None None None now req d = (KeyNotFound, d))
       \<and> (\<forall>r. find (\<lambda>r. key r = req_key req) (keys d) = Some r \<and> used r
             \<longrightarrow> verify None None None now req d = (KeyAlreadyUsed, d))
       \<and> (\<forall>r. find (\<lambda>r. key r = req_key req) (keys d) = Some r \<and> \<not> used r
               \<and> expires_at r < now
             \<longrightarrow> verify None None None now req d = (KeyExpired, d))"
  using assms
  by (cases "find (\<lambda>r. key r = req_key req) (keys d)")
     (auto simp: verify_def sql_select_key_def sql_update_used_def addLog_def)

theorem verify_single_call_witness:
  "req_key (bob ''K1'') \<noteq> [] \<and> robloxName (bob ''K1'') \<noteq> [] \<and> robloxId (bob ''K1'') \<noteq> []
   \<and> fst (verify None None None 99 (bob ''K1'') (table [issued ''K1'' 0 100]))
       = Granted ''Ana'' ''1 Hora'' 0
   \<and> verify None None None 101 (bob ''K1'') (table [issued ''K1'' 0 100])
       = (KeyExpired, table [issued ''K1'' 0 100])
   \<and> verify None None None 99 (bob ''K2'') (table [issued ''K1'' 0 100])
       = (KeyNotFound, table [issued ''K1'' 0 100])"
  using verify_single_call [of "bob ''K1''" 99 "table [issued ''K1'' 0 100]"]
        verify_single_call [of "bob ''K1''" 101 "table [issued ''K1'' 0 100]"]
        verify_single_call [of "bob ''K2''" 99 "table [issued ''K1'' 0 100]"]
  by (simp add: table_def issued_def bob_def)

text \<open>C4 as stated fails at the instant of expiry: the key expires at 100 and a call at
  100 is granted.\<close>

theorem verify_at_expiry_instant_granted:
  "expires_at (issued ''K1'' 0 100) = 100
   \<and> verify None None None 100 (bob ''K1'') (table [issued ''K1'' 0 100])
       = (Granted ''Ana'' ''1 Hora'' 0,
          \<lparr>keys = [redeemed (issued ''K1'' 0 100) 100],
           logs = [\<lparr>log_action = ''VERIFY'', log_key = Some ''K1'', log_creator_id = Some ''111'',
                    log_creator_name = Some ''Ana'', log_user_roblox_name = Some ''bob'',
                    log_timestamp = 100, log_details = Some ''Usado por bob (ID: 42)''\<rparr>]\<rparr>)"
  by (simp add: verify_def sql_select_key_def sql_update_used_def addLog_def verify_details_def
        table_def issued_def redeemed_def bob_def)

text \<open>
  C5, as the code has it. \<^verbatim>\<open>addLog\<close> is awaited inside the handler's one
  \<^verbatim>\<open>try\<close> block, after the \<^verbatim>\<open>UPDATE\<close>. When the \<^verbatim>\<open>UPDATE\<close> of an eligible key
  has succeeded and the insert into \<^verbatim>\<open>logs\<close> throws, the key stays used (nothing is
  rolled back) and no log row is written, but the answer is \<^verbatim>\<open>valid: false\<close> with the
  message of the error.
\<close>

theorem log_failure_after_consumption:
  assumes "find (\<lambda>r. key r = req_key req) (keys d) = Some r" and "\<not> used r"
    and "now \<le> expires_at r"
    and "req_key req \<noteq> []" and "robloxName req \<noteq> []" and "robloxId req \<noteq> []"
  shows "fst (verify None None (Some msg) now req d) = Failed (StorageFault msg)
       \<and> \<not> valid (fst (verify None None (Some msg) now req d))
       \<and> find (\<lambda>r. key r = req_key req) (keys (snd (verify None None (Some msg) now req d)))
           = Some (r\<lparr>used := True, user_roblox_name := Some (robloxName req),
                     user_roblox_id := Some (robloxId req), used_at := Some now\<rparr>)
       \<and> logs (snd (verify None None (Some msg) now req d)) = logs d"
  using assms
  by (simp add: verify_def sql_select_key_def sql_update_used_def addLog_def find_update_used)

theorem log_failure_after_consumption_witness:
  "\<not> used (issued ''K1'' 0 100) \<and> 5 \<le> expires_at (issued ''K1'' 0 100)
   \<and> fst (verify None None (Some ''timeout'') 5 (bob ''K1'') (table [issued ''K1'' 0 100]))
       = Failed (StorageFault ''timeout'')
   \<and> find (\<lambda>r. key r = ''K1'')
        (keys (snd (verify None None (Some ''timeout'') 5 (bob ''K1'')
                      (table [issued ''K1'' 0 100]))))
       = Some (redeemed (issued ''K1'' 0 100) 5)"
  using log_failure_after_consumption
    [of "bob ''K1''" "table [issued ''K1'' 0 100]" "issued ''K1'' 0 100" 5 "''timeout''"]
  by (simp add: table_def issued_def redeemed_def bob_def)

text \<open>C5 as stated fails: the key is redeemed at 5, the log insert throws, and the caller
  is not told \<^verbatim>\<open>valid: true\<close>.\<close>

theorem log_failure_changes_answer:
  "verify None None (Some ''timeout'') 5 (bob ''K1'') (table [issued ''K1'' 0 100])
     = (Failed (StorageFault ''timeout''), table [redeemed (issued ''K1'' 0 100) 5])
   \<and> valid (Failed (StorageFault ''timeout'')) = False"
  by (simp add: verify_def sql_select_key_def sql_update_used_def addLog_def
        table_def issued_def redeemed_def bob_def)

text \<open>In a run of its own, a handler goes through its pieces one after the other, and
  the pieces make up \<open>verify\<close>.\<close>

lemma verify_as_steps:
  "verify_step f3 now (fst (verify_step f2 now (fst (verify_step f1 now (Start req) d))
                              (snd (verify_step f1 now (Start req) d))))
     (snd (verify_step f2 now (fst (verify_step f1 now (Start req) d))
             (snd (verify_step f1 now (Start req) d))))
   = (Done (fst (verify f1 f2 f3 now req d)), snd (verify f1 f2 f3 now req d))"
  by (auto simp: verify_def split: sum.splits option.splits)

lemma verify_granted_row:
  assumes "verify f1 f2 f3 now req d = (Granted a b c, d')"
  shows "\<exists>r. find (\<lambda>r. key r = req_key req) (keys d') = Some r \<and> used r
           \<and> used_at r = Some now \<and> user_roblox_name r = Some (robloxName req)
           \<and> user_roblox_id r = Some (robloxId req)"
  using assms
  by (auto simp: verify_def sql_select_key_def sql_update_used_def addLog_def find_update_used
           split: option.splits if_splits sum.splits)

text \<open>Calls that do not overlap: after a grant, a later call for the same key is
  answered "already used".\<close>

lemma verify_after_grant:
  assumes "verify f1 f2 f3 now req d = (Granted a b c, d')"
    and "req_key req' = req_key req" and "robloxName req' \<noteq> []" and "robloxId req' \<noteq> []"
  shows "verify None g2 g3 now' req' d' = (KeyAlreadyUsed, d')"
proof -
  obtain r where r: "find (\<lambda>r. key r = req_key req) (keys d') = Some r" "used r"
    using verify_granted_row [OF assms(1)] by blast
  have "req_key req \<noteq> []"
    using assms(1) by (auto simp: verify_def split: if_splits)
  then show ?thesis
    using r assms(2-4) by (simp add: verify_def sql_select_key_def)
qed

text \<open>
  C1. Two requests for one fresh key, both in flight: each \<^verbatim>\<open>SELECT\<close> runs before
  either \<^verbatim>\<open>UPDATE\<close>, so each handler holds a row with \<^verbatim>\<open>used = false\<close>; the
  \<^verbatim>\<open>UPDATE\<close> has no condition on \<^verbatim>\<open>used\<close> and its row count is not read. Both
  callers are answered \<^verbatim>\<open>valid: true\<close>, the row carries the second redeemer, and
  the log has two VERIFY rows.
\<close>

theorem double_grant_race:
  "run_events [(0, None, 5), (1, None, 5), (0, None, 6), (1, None, 6), (0, None, 7), (1, None, 7)]
     ([Start (bob ''K1''), Start (eve ''K1'')], table [issued ''K1'' 0 100])
   = ([Done (Granted ''Ana'' ''1 Hora'' 0), Done (Granted ''Ana'' ''1 Hora'' 0)],
      \<lparr>keys = [(issued ''K1'' 0 100)
                 \<lparr>used := True, user_roblox_name := Some ''eve'', user_roblox_id := Some ''43'',
                  used_at := Some 6\<rparr>],
       logs = [\<lparr>log_action = ''VERIFY'', log_key = Some ''K1'', log_creator_id = Some ''111'',
                log_creator_name = Some ''Ana'', log_user_roblox_name = Some ''bob'',
                log_timestamp = 7, log_details = Some ''Usado por bob (ID: 42)''\<rparr>,
               \<lparr>log_action = ''VERIFY'', log_key = Some ''K1'', log_creator_id = Some ''111'',
                log_creator_name = Some ''Ana'', log_user_roblox_name = Some ''eve'',
                log_timestamp = 7, log_details = Some ''Usado por eve (ID: 43)''\<rparr>]\<rparr>)"
  by (simp add: sql_select_key_def sql_update_used_def addLog_def verify_details_def
        table_def issued_def bob_def eve_def)

subsection \<open>Issuing\<close>

lemma stake_8_SCons:
  "stake 8 (a ## b ## c ## d ## e ## f ## g ## h ## s) = [a, b, c, d, e, f, g, h]"
  by (simp add: eval_nat_numeral)

lemma sdrop_8_SCons: "sdrop 8 (a ## b ## c ## d ## e ## f ## g ## h ## s) = s"
  by (simp add: eval_nat_numeral)

lemma stake_8_sconst: "stake 8 (sconst x) = [x, x, x, x, x, x, x, x]"
  by (simp add: eval_nat_numeral)

lemma sdrop_8_sconst: "sdrop 8 (sconst x) = sconst x"
  by (simp add: eval_nat_numeral)

lemma hex_byte_AB: "hex_byte 0xAB = ''AB''"
  by (simp add: hex_byte_def hex_digit_def)

lemma hex_byte_CD: "hex_byte 0xCD = ''CD''"
  by (simp add: hex_byte_def hex_digit_def)

lemma generateKey_ab_then_cd: "generateKey ab_then_cd = (''ABABABABABABABAB'', sconst 0xCD)"
  by (simp add: generateKey_def ab_then_cd_def stake_8_SCons sdrop_8_SCons hex_byte_AB)

lemma generateKey_cd: "generateKey (sconst 0xCD) = (''CDCDCDCDCDCDCDCD'', sconst 0xCD)"
  unfolding generateKey_def stake_8_sconst sdrop_8_sconst by (simp add: hex_byte_CD)

text \<open>
  C9. The five duration choices are fixed offsets in milliseconds: one hour, 24 hours,
  7 days, 30 days, and 365 days for the permanent choice. A key that \<^verbatim>\<open>/getkey\<close>
  issues at \<open>now\<close> is stored with \<open>expires_at = now + offset\<close>, an instant after
  \<open>now\<close>; the column holds a timestamp for every choice, never NULL.
\<close>

theorem duration_offsets:
  "durationMs D1h = 3600000 \<and> durationMs D24h = 24 * 3600000
   \<and> durationMs D7d = 7 * 86400000 \<and> durationMs D30d = 30 * 86400000
   \<and> durationMs Dperm = 365 * 86400000
   \<and> (\<forall>e dl rng' d'.
         getkey rng f_insert f_log dm_ok now u duracao notas d = (KeyIssued e dl, rng', d')
         \<longrightarrow> (\<exists>r. find (\<lambda>r. key r = embed_key e) (keys d') = Some r
                  \<and> expires_at r = now + durationMs duracao \<and> now < expires_at r))"
proof -
  have pos: "0 < durationMs duracao" by (cases duracao) simp_all
  have "\<exists>r. find (\<lambda>r. key r = embed_key e) (keys d') = Some r
             \<and> expires_at r = now + durationMs duracao \<and> now < expires_at r"
    if "getkey rng f_insert f_log dm_ok now u duracao notas d = (KeyIssued e dl, rng', d')"
    for e dl rng' d'
    using that pos
    by (auto simp: getkey_def sql_insert_key_def addLog_def Let_def find_append_new
             split: prod.splits option.splits if_splits sum.splits)
  then show ?thesis by simp
qed

theorem duration_offsets_witness:
  "fst (getkey (sconst 0xCD) None None True 10 ana Dperm None empty_db)
     = KeyIssued \<lparr>embed_key = ''CDCDCDCDCDCDCDCD'', embed_duration = ''Permanente (1 Ano)'',
                  embed_expires = 31536000, embed_user_id = ''111'', embed_notes = None\<rparr>
         DirectMessage
   \<and> map expires_at (keys (snd (snd (getkey (sconst 0xCD) None None True 10 ana Dperm None
                                        empty_db))))
     = [10 + 365 * 86400000]"
  using duration_offsets [of "sconst 0xCD" None None True 10 ana Dperm None empty_db]
  by (simp add: getkey_def generateKey_cd sql_insert_key_def addLog_def empty_db_def ana_def
        display_name_def create_details_def)

text \<open>
  C6, as the code has it. \<^verbatim>\<open>/getkey\<close> calls \<^verbatim>\<open>generateKey\<close> once and inserts once.
  When the identifier is already in the table the insert fails on the \<^verbatim>\<open>UNIQUE\<close>
  constraint and the command ends with the error reply: eight bytes, one identifier, have
  been taken from the random source, and no row and no log entry is written. There is no
  second attempt.
\<close>

theorem collision_fails_issue:
  assumes "list_ex (\<lambda>r. key r = fst (generateKey rng)) (keys d)"
  shows "sql_insert_key None now (fst (generateKey rng)) (user_id u) (display_name u)
           (username u) (now + durationMs duracao) (durationText duracao)
           (case notas of None \<Rightarrow> [] | Some n \<Rightarrow> n) d = Inl UniqueViolation
       \<and> getkey rng None f_log dm_ok now u duracao notas d = (CommandError, sdrop 8 rng, d)"
  using assms
  by (simp add: getkey_def sql_insert_key_def Let_def generateKey_def split: prod.splits)

theorem collision_fails_issue_witness:
  "list_ex (\<lambda>r. key r = fst (generateKey ab_then_cd))
     (keys (table [issued ''ABABABABABABABAB'' 0 100]))
   \<and> getkey ab_then_cd None None True 10 ana D1h None (table [issued ''ABABABABABABABAB'' 0 100])
       = (CommandError, sdrop 8 ab_then_cd, table [issued ''ABABABABABABABAB'' 0 100])"
  using collision_fails_issue
    [of ab_then_cd "table [issued ''ABABABABABABABAB'' 0 100]" 10 ana D1h None None True]
  by (simp add: generateKey_ab_then_cd table_def issued_def)

text \<open>C6 as stated fails: the first identifier collides and the command fails, although
  the next identifier of the same source is free and is accepted when it comes first.\<close>

theorem issue_without_retry:
  "getkey ab_then_cd None None True 10 ana D1h None (table [issued ''ABABABABABABABAB'' 0 100])
     = (CommandError, sconst 0xCD, table [issued ''ABABABABABABABAB'' 0 100])
   \<and> fst (getkey (sconst 0xCD) None None True 10 ana D1h None
            (table [issued ''ABABABABABABABAB'' 0 100]))
     = KeyIssued \<lparr>embed_key = ''CDCDCDCDCDCDCDCD'', embed_duration = ''1 Hora'',
                  embed_expires = 3600, embed_user_id = ''111'', embed_notes = None\<rparr>
         DirectMessage"
  by (simp add: getkey_def generateKey_ab_then_cd generateKey_cd sql_insert_key_def addLog_def
        table_def issued_def ana_def display_name_def create_details_def)

subsection \<open>Revoking and listing\<close>

text \<open>
  C2, as the code has it. \<^verbatim>\<open>/revokekey\<close> tests that the key exists and that the
  requester is its creator, and nothing else. On a used key, called by the creator with
  no storage fault, it deletes the row and replies that the key is revoked.
\<close>

theorem revoke_by_creator_deletes:
  assumes "find (\<lambda>r. key r = k) (keys d) = Some r" and "used r" and "creator_id r = user_id u"
  shows "fst (revokekey None None None now u k d) = KeyRevoked k
       \<and> keys (snd (revokekey None None None now u k d)) = filter (\<lambda>r. key r \<noteq> k) (keys d)
       \<and> find (\<lambda>r. key r = k) (keys (snd (revokekey None None None now u k d))) = None
       \<and> r \<notin> set (keys (snd (revokekey None None None now u k d)))"
proof -
  have kr: "key r = k" using assms(1) by (auto simp: find_Some_iff)
  show ?thesis using assms kr
    by (simp add: revokekey_def sql_select_key_def sql_delete_key_def addLog_def find_filter_neq)
qed

theorem revoke_by_creator_deletes_witness:
  "used (redeemed (issued ''K1'' 0 100) 5)
   \<and> creator_id (redeemed (issued ''K1'' 0 100) 5) = user_id ana
   \<and> fst (revokekey None None None 10 ana ''K1''
            (table [redeemed (issued ''K1'' 0 100) 5, issued ''K2'' 0 100])) = KeyRevoked ''K1''
   \<and> keys (snd (revokekey None None None 10 ana ''K1''
                  (table [redeemed (issued ''K1'' 0 100) 5, issued ''K2'' 0 100])))
       = [issued ''K2'' 0 100]"
  using revoke_by_creator_deletes
    [of "''K1''" "table [redeemed (issued ''K1'' 0 100) 5, issued ''K2'' 0 100]"
        "redeemed (issued ''K1'' 0 100) 5" ana 10]
  by (simp add: table_def issued_def redeemed_def ana_def)

text \<open>C2 as stated fails: the creator revokes a used key, the answer is "revoked" and the
  table is empty afterwards.\<close>

theorem revoke_consumed_deletes:
  "revokekey None None None 10 ana ''K1'' (table [redeemed (issued ''K1'' 0 100) 5])
     = (KeyRevoked ''K1'',
        \<lparr>keys = [],
         logs = [\<lparr>log_action = ''REVOKE'', log_key = Some ''K1'', log_creator_id = Some ''111'',
                  log_creator_name = Some ''Ana'', log_user_roblox_name = None,
                  log_timestamp = 10, log_details = Some ''Key revogada''\<rparr>]\<rparr>)"
  by (simp add: revokekey_def sql_select_key_def sql_delete_key_def addLog_def
        table_def issued_def redeemed_def ana_def display_name_def)






subsection \<open>The sweep\<close>

text \<open>
  C7. A run of \<^verbatim>\<open>cleanupExpiredKeys\<close> whose statement succeeds deletes exactly the rows
  with \<open>expires_at < now\<close> and \<^verbatim>\<open>used = false\<close>: every used row stays, whatever its
  expiry, every unused row that has not expired stays, no row is added, and the log is
  not touched.
\<close>

theorem sweep_deletes_expired_unused:
  "keys (snd (cleanupExpiredKeys None now d))
     = filter (\<lambda>r. used r \<or> now \<le> expires_at r) (keys d)
   \<and> (\<forall>r \<in> set (keys d). used r \<longrightarrow> r \<in> set (keys (snd (cleanupExpiredKeys None now d))))
   \<and> (\<forall>r \<in> set (keys d). \<not> used r \<and> now \<le> expires_at r
         \<longrightarrow> r \<in> set (keys (snd (cleanupExpiredKeys None now d))))
   \<and> (\<forall>r \<in> set (keys d). \<not> used r \<and> expires_at r < now
         \<longrightarrow> r \<notin> set (keys (snd (cleanupExpiredKeys None now d))))
   \<and> set (keys (snd (cleanupExpiredKeys None now d))) \<subseteq> set (keys d)
   \<and> logs (snd (cleanupExpiredKeys None now d)) = logs d"
proof -
  have "filter (\<lambda>r. \<not> (expires_at r < now \<and> used r = False)) (keys d)
          = filter (\<lambda>r. used r \<or> now \<le> expires_at r) (keys d)"
    by (rule filter_cong) auto
  then have k: "keys (snd (cleanupExpiredKeys None now d))
                  = filter (\<lambda>r. used r \<or> now \<le> expires_at r) (keys d)"
    by (simp add: cleanupExpiredKeys_def sql_delete_expired_def)
  have l: "logs (snd (cleanupExpiredKeys None now d)) = logs d"
    by (simp add: cleanupExpiredKeys_def sql_delete_expired_def)
  show ?thesis unfolding k l by auto
qed

theorem sweep_deletes_expired_unused_witness:
  "cleanupExpiredKeys None 200
     (table [issued ''K1'' 0 100, issued ''K2'' 150 100, redeemed (issued ''K3'' 0 100) 50])
   = (Removed 1, table [issued ''K2'' 150 100, redeemed (issued ''K3'' 0 100) 50])"
  using sweep_deletes_expired_unused
    [of 200 "table [issued ''K1'' 0 100, issued ''K2'' 150 100,
                    redeemed (issued ''K3'' 0 100) 50]"]
  by (simp add: cleanupExpiredKeys_def sql_delete_expired_def table_def issued_def redeemed_def)

subsection \<open>The invariant on \<^verbatim>\<open>used_at\<close>\<close>

lemma inv_insert:
  "used_at_iff_used d \<Longrightarrow> sql_insert_key f now k a b c e t n d = Inr d' \<Longrightarrow> used_at_iff_used d'"
  by (auto simp: used_at_iff_used_def sql_insert_key_def split: option.splits if_splits)

lemma inv_update:
  "used_at_iff_used d \<Longrightarrow> sql_update_used f now n i k d = Inr d' \<Longrightarrow> used_at_iff_used d'"
  by (fastforce simp: used_at_iff_used_def sql_update_used_def list_all_iff
        split: option.splits)

lemma inv_delete:
  "used_at_iff_used d \<Longrightarrow> sql_delete_key f k d = Inr d' \<Longrightarrow> used_at_iff_used d'"
  by (auto simp: used_at_iff_used_def sql_delete_key_def list_all_iff split: option.splits)

lemma inv_delete_expired:
  "used_at_iff_used d \<Longrightarrow> sql_delete_expired f now d = Inr (ks, d') \<Longrightarrow> used_at_iff_used d'"
  by (auto simp: used_at_iff_used_def sql_delete_expired_def list_all_iff split: option.splits)

lemma inv_addLog:
  "used_at_iff_used d \<Longrightarrow> addLog f now a k c n r t d = Inr d' \<Longrightarrow> used_at_iff_used d'"
  by (auto simp: used_at_iff_used_def addLog_def split: option.splits)

lemma inv_getkey:
  "used_at_iff_used d \<Longrightarrow> used_at_iff_used (snd (snd (getkey rng f1 f2 dm now u dur notas d)))"
  by (auto simp: getkey_def Let_def split: prod.splits sum.splits
           intro: inv_insert inv_addLog)

lemma inv_verify_step:
  "used_at_iff_used d \<Longrightarrow> used_at_iff_used (snd (verify_step f now p d))"
  by (cases p) (auto split: sum.splits option.splits intro: inv_update inv_addLog)

lemma inv_verify:
  "used_at_iff_used d \<Longrightarrow> used_at_iff_used (snd (verify f1 f2 f3 now req d))"
  by (auto simp: verify_def split: sum.splits option.splits intro: inv_update inv_addLog)

lemma inv_revokekey:
  "used_at_iff_used d \<Longrightarrow> used_at_iff_used (snd (revokekey f1 f2 f3 now u k d))"
  by (auto simp: revokekey_def split: sum.splits option.splits intro: inv_delete inv_addLog)

lemma inv_cleanup:
  "used_at_iff_used d \<Longrightarrow> used_at_iff_used (snd (cleanupExpiredKeys f now d))"
  by (auto simp: cleanupExpiredKeys_def split: sum.splits prod.splits
           intro: inv_delete_expired)

lemma inv_run_events:
  "used_at_iff_used (snd s) \<Longrightarrow> used_at_iff_used (snd (run_events es s))"
proof (induction es s rule: run_events.induct)
  case (1 s)
  then show ?case by simp
next
  case (2 i f now es ps d)
  show ?case
  proof (cases "i < length ps")
    case True
    obtain p' d' where st: "verify_step f now (ps ! i) d = (p', d')" by force
    have "used_at_iff_used d'"
      using inv_verify_step [of d f now "ps ! i"] "2.prems" st by simp
    then show ?thesis
      using "2.IH"(1) [OF True st [symmetric]] True st by simp
  next
    case False
    then show ?thesis using 2 by simp
  qed
qed

lemma getkey_new_row:
  assumes "getkey rng f1 f2 dm now u dur notas d = (KeyIssued e dl, rng', d')"
  shows "\<exists>r. find (\<lambda>r. key r = embed_key e) (keys d') = Some r \<and> \<not> used r \<and> used_at r = None"
  using assms
  by (auto simp: getkey_def sql_insert_key_def addLog_def Let_def find_append_new
           split: prod.splits option.splits if_splits sum.splits)

text \<open>
  C8. \<^verbatim>\<open>used_at\<close> is non-null exactly on the rows with \<^verbatim>\<open>used = true\<close>: this holds
  of the empty tables and is kept by every operation, whatever faults occur:
  \<^verbatim>\<open>/getkey\<close>, \<^verbatim>\<open>/api/verify\<close> (as a whole, piece by piece, and for any
  interleaving of requests in flight), \<^verbatim>\<open>/revokekey\<close> and the sweep. The row that
  \<^verbatim>\<open>/getkey\<close> inserts has \<^verbatim>\<open>used = false\<close> and \<^verbatim>\<open>used_at\<close> NULL; after a granted
  \<^verbatim>\<open>/api/verify\<close> the row has \<^verbatim>\<open>used = true\<close>, the redeemer's name and id and
  \<^verbatim>\<open>used_at\<close>, all set by the one \<^verbatim>\<open>UPDATE\<close>.
\<close>

theorem used_at_set_iff_used:
  assumes "used_at_iff_used d"
  shows "used_at_iff_used empty_db
       \<and> used_at_iff_used (snd (snd (getkey rng f1 f2 dm_ok now u duracao notas d)))
       \<and> used_at_iff_used (snd (verify f1 f2 f3 now req d))
       \<and> used_at_iff_used (snd (verify_step f1 now p d))
       \<and> used_at_iff_used (snd (run_events es (ps, d)))
       \<and> used_at_iff_used (snd (revokekey f1 f2 f3 now u k d))
       \<and> used_at_iff_used (snd (cleanupExpiredKeys f1 now d))
       \<and> (\<forall>e dl rng' d'.
             getkey rng f1 f2 dm_ok now u duracao notas d = (KeyIssued e dl, rng', d')
             \<longrightarrow> (\<exists>r. find (\<lambda>r. key r = embed_key e) (keys d') = Some r
                      \<and> \<not> used r \<and> used_at r = None))
       \<and> (\<forall>a b c d'.
             verify f1 f2 f3 now req d = (Granted a b c, d')
             \<longrightarrow> (\<exists>r. find (\<lambda>r. key r = req_key req) (keys d') = Some r \<and> used r
                      \<and> used_at r = Some now \<and> user_roblox_name r = Some (robloxName req)
                      \<and> user_roblox_id r = Some (robloxId req)))"
proof -
  have e: "used_at_iff_used empty_db"
    by (simp add: used_at_iff_used_def empty_db_def)
  have r: "used_at_iff_used (snd (run_events es (ps, d)))"
    using inv_run_events [of "(ps, d)" es] assms by simp
  have g: "used_at_iff_used (snd (snd (getkey rng f1 f2 dm_ok now u duracao notas d)))"
    using assms by (rule inv_getkey)
  have v: "used_at_iff_used (snd (verify f1 f2 f3 now req d))"
    using assms by (rule inv_verify)
  have s: "used_at_iff_used (snd (verify_step f1 now p d))"
    using assms by (rule inv_verify_step)
  have k: "used_at_iff_used (snd (revokekey f1 f2 f3 now u k d))"
    using assms by (rule inv_revokekey)
  have c: "used_at_iff_used (snd (cleanupExpiredKeys f1 now d))"
    using assms by (rule inv_cleanup)
  have n: "\<forall>e dl rng' d'.
             getkey rng f1 f2 dm_ok now u duracao notas d = (KeyIssued e dl, rng', d')
             \<longrightarrow> (\<exists>r. find (\<lambda>r. key r = embed_key e) (keys d') = Some r
                      \<and> \<not> used r \<and> used_at r = None)"
    by (intro allI impI) (rule getkey_new_row)
  have m: "\<forall>a b c d'.
             verify f1 f2 f3 now req d = (Granted a b c, d')
             \<longrightarrow> (\<exists>r. find (\<lambda>r. key r = req_key req) (keys d') = Some r \<and> used r
                      \<and> used_at r = Some now \<and> user_roblox_name r = Some (robloxName req)
                      \<and> user_roblox_id r = Some (robloxId req))"
    by (intro allI impI) (rule verify_granted_row)
  from e g v s r k c n m show ?thesis
    by (intro conjI)
qed

theorem used_at_set_iff_used_witness:
  "used_at_iff_used (table [issued ''K1'' 0 100])
   \<and> used_at_iff_used (snd (verify None None None 5 (bob ''K1'') (table [issued ''K1'' 0 100])))
   \<and> map used_at (keys (snd (verify None None None 5 (bob ''K1'') (table [issued ''K1'' 0 100]))))
       = [Some 5]
   \<and> map used (keys (snd (verify None None None 5 (bob ''K1'') (table [issued ''K1'' 0 100]))))
       = [True]"
  using used_at_set_iff_used
    [of "table [issued ''K1'' 0 100]" "sconst 0xCD" None None True 5 ana D1h None None
        "bob ''K1''" "Start (bob ''K1'')" "[]" "[]" "''K1''"]
  by (simp add: used_at_iff_used_def verify_def sql_select_key_def sql_update_used_def
        addLog_def table_def issued_def bob_def)

end
